theory Spec2Isabelle
  imports Main
begin

section \<open>The text/speech converter command-line tool\<close>

text \<open>
  A shallow embedding of \<^verbatim>\<open>tts_stt_converter.py\<close>. The program is glue between the
  command line, a configuration file, the logging library and two external providers
  (speech synthesis and speech recognition). Its own control flow is modelled line by
  line; what the libraries and the providers answer is read from an environment
  (record \<open>env\<close>), about which the theorems assume nothing unless they say so.
  Exceptions are values: a computation returns \<open>exn + 'a\<close> together with the new program
  state, \<open>Inl\<close> meaning that the exception leaves the computation.
\<close>

subsection \<open>Exceptions\<close>

text \<open>
  The classes the handlers of the source tell apart, the ones the modelled library calls
  raise, \<open>OtherException\<close> for every further subclass of Python's \<open>Exception\<close>, and
  the two classes that derive from \<open>BaseException\<close> only, which
  \<^verbatim>\<open>except Exception\<close> does not catch.
\<close>

datatype exn_class =
    PermissionError
  | FileNotFoundError
  | UnknownValueError
  | RequestError
  | TypeError
  | ValueError
  | AttributeError
  | UnicodeEncodeError
  | OtherException
  | KeyboardInterrupt
  | SystemExit nat

datatype exn = Raised (cls: exn_class) (str: string)

fun is_Exception :: "exn \<Rightarrow> bool" where
  "is_Exception (Raised KeyboardInterrupt m) = False"
| "is_Exception (Raised (SystemExit n) m) = False"
| "is_Exception (Raised c m) = True"

definition isinstance :: "exn \<Rightarrow> exn_class \<Rightarrow> bool" where
  "isinstance e c = (cls e = c)"

text \<open>
  The exit status of the interpreter: 0 when the script runs to its end, the code of a
  \<open>SystemExit\<close>, 130 when a \<open>KeyboardInterrupt\<close> ends it (the interpreter kills
  itself with the interrupt signal, signal 2, which a shell reports as 128 + 2), and 1 for
  any other exception that nothing caught.
\<close>

fun exit_status :: "exn + unit \<Rightarrow> nat" where
  "exit_status (Inr u) = 0"
| "exit_status (Inl (Raised (SystemExit n) m)) = n"
| "exit_status (Inl (Raised KeyboardInterrupt m)) = 130"
| "exit_status (Inl (Raised c m)) = 1"

subsection \<open>Data\<close>

text \<open>
  A \<open>ConfigParser\<close> after reading: its sections, and the \<open>DEFAULT\<close> section that
  every lookup falls back on. Values are the raw strings of the file.
\<close>

record ConfigParser =
  sections :: "string \<rightharpoonup> (string \<rightharpoonup> string)"
  defaults :: "string \<rightharpoonup> string"

definition empty_config :: ConfigParser where
  "empty_config = \<lparr>sections = Map.empty, defaults = Map.empty\<rparr>"

text \<open>
  The namespace that \<open>parse_args\<close> returns. An attribute that the chosen subcommand does
  not define is \<open>None\<close> here; reading it raises \<open>AttributeError\<close> in \<open>main\<close>.
\<close>

record args =
  command :: "string option"
  text' :: "string option"
  audio :: "string option"
  lang :: "string option"

text \<open>What \<open>parse_args\<close> does: return a namespace, print the help text and exit with
  status 0, or print a usage error and exit with status 2.\<close>

datatype parse_outcome = Namespace args | Help | UsageError

text \<open>The values an attribute of the \<open>logging\<close> module can have, as far as
  \<open>setLevel\<close> tells them apart: an integer, a boolean, a string (with its \<open>repr\<close>)
  and any other object (a function, a class, a module), of which only the \<open>repr\<close>
  matters.\<close>

datatype pyval = PyInt int | PyBool bool | PyStr string string | PyObject string

text \<open>
  What the world outside the script answers. Each field is the outcome of one library
  call as a function of its arguments.
\<close>

record env =
  read_ini :: "string \<Rightarrow> (exn + ConfigParser) option"
    \<comment> \<open>\<open>config.read\<close>: \<open>None\<close> when the file cannot be opened (it is skipped),
        otherwise a parse error or the parsed contents\<close>
  interpolate :: "string \<Rightarrow> string \<Rightarrow> string \<Rightarrow> exn + string"
    \<comment> \<open>\<open>BasicInterpolation\<close> of a value that contains a percent sign
        (section, option, raw value)\<close>
  logging_other_attr :: "string \<Rightarrow> pyval option"
    \<comment> \<open>attributes of the \<open>logging\<close> module that are not listed below\<close>
  function_repr :: "string \<Rightarrow> string"
    \<comment> \<open>the \<open>repr\<close> of a function of the \<open>logging\<close> module, which holds its
        address in this run\<close>
  realpath :: "string \<Rightarrow> string"
    \<comment> \<open>the file that a path names: two paths name the same file when their real paths
        are equal (relative and absolute paths, repeated slashes, symbolic links)\<close>
  stdout_error :: "string \<Rightarrow> string option"
    \<comment> \<open>the message of the \<open>UnicodeEncodeError\<close> that printing a line raises when
        standard output cannot encode it\<close>
  mkdir_fails :: "string \<Rightarrow> exn option"
    \<comment> \<open>\<open>os.makedirs\<close> of a non-empty name with \<open>exist_ok=True\<close>\<close>
  open_fails :: "string \<Rightarrow> exn option"
    \<comment> \<open>opening a path for writing or appending\<close>
  asctime :: string
    \<comment> \<open>the time stamp the log formatter prints\<close>
  gtts_init_fails :: "string \<Rightarrow> string \<Rightarrow> exn option"
    \<comment> \<open>the \<open>gTTS\<close> constructor (text, language)\<close>
  synthesize :: "string \<Rightarrow> string \<Rightarrow> exn + string"
    \<comment> \<open>the synthesis provider: the audio for a text in a language\<close>
  audio_file :: "string \<Rightarrow> exn + string"
    \<comment> \<open>entering \<open>sr.AudioFile(path)\<close>: the opened audio source\<close>
  record_audio :: "string \<Rightarrow> exn + string"
    \<comment> \<open>\<open>recognizer.record\<close> on an audio source\<close>
  recognize_google :: "string \<Rightarrow> string \<Rightarrow> exn + string"
    \<comment> \<open>the recognition provider: the transcript of an audio in a language\<close>
  argparse_other :: "string list \<Rightarrow> parse_outcome"
    \<comment> \<open>\<open>parse_args\<close> on a command line with an abbreviated or \<open>=\<close>-joined
        option, an unknown option or a value that starts with a dash\<close>
  help_text :: string
  usage_text :: string

text \<open>The calls that leave the script, in the order they are made.\<close>

datatype event =
    ConfigRead string
  | Makedirs string
  | OpenFile string string
  | GttsInit string string
  | GttsSave string
  | AudioFileEnter string
  | RecordAudio
  | RecognizeGoogle string
  | LogCall string int string

text \<open>
  The state of the process: the module globals \<open>config\<close> and \<open>logger\<close> (its level
  and its two handlers), whether the root logger has received the handler that
  \<open>logging.basicConfig\<close> installs, the contents of the files by path, the two output
  streams and the calls made so far. A file is known by its real path: \<open>files\<close> maps
  the real path of a file to its contents.
\<close>

record pstate =
  config :: ConfigParser
  logger_level :: int
  file_handler :: "string option"
  console_handler :: bool
  root_handler :: bool
  files :: "string \<rightharpoonup> string"
  stdout :: "string list"
  stderr :: "string list"
  trace :: "event list"

definition initial_state :: "(string \<rightharpoonup> string) \<Rightarrow> pstate" where
  "initial_state fs =
     \<lparr>config = empty_config, logger_level = 0, file_handler = None,
      console_handler = False, root_handler = False, files = fs,
      stdout = [], stderr = [], trace = []\<rparr>"

definition call :: "event \<Rightarrow> pstate \<Rightarrow> pstate" where
  "call ev s = s\<lparr>trace := trace s @ [ev]\<rparr>"

subsection \<open>Library calls\<close>

text \<open>
  \<open>config.get(section, option, fallback=...)\<close>: the fallback when the section is
  missing, or when the option is in neither the section nor \<open>DEFAULT\<close>; otherwise the
  stored value, interpolated when it contains a percent sign. (The three option names of
  the source are lower case already, so \<open>optionxform\<close> leaves them as they are.)
\<close>

definition config_get :: "env \<Rightarrow> ConfigParser \<Rightarrow> string \<Rightarrow> string \<Rightarrow> string \<Rightarrow> exn + string" where
  "config_get env c section opt fallback =
     (case (case sections c section of
              Some d \<Rightarrow> Some d
            | None \<Rightarrow> if section = ''DEFAULT'' then Some Map.empty else None) of
        None \<Rightarrow> Inr fallback
      | Some d \<Rightarrow>
          (case (case d opt of Some v \<Rightarrow> Some v | None \<Rightarrow> defaults c opt) of
             None \<Rightarrow> Inr fallback
           | Some v \<Rightarrow>
               if CHR ''%'' \<in> set v then interpolate env section opt v else Inr v))"

text \<open>
  \<open>os.path.dirname\<close> of \<open>posixpath\<close>: everything up to and including the last
  slash, with the trailing slashes removed unless nothing but slashes is left.
\<close>

definition rstrip_sep :: "string \<Rightarrow> string" where
  "rstrip_sep p = rev (dropWhile (\<lambda>c. c = CHR ''/'') (rev p))"

definition dirname :: "string \<Rightarrow> string" where
  "dirname p =
     (let head = rev (dropWhile (\<lambda>c. c \<noteq> CHR ''/'') (rev p))
      in if head \<noteq> [] \<and> head \<noteq> replicate (length head) (CHR ''/'')
         then rstrip_sep head else head)"

text \<open>
  \<open>os.makedirs(name, exist_ok=True)\<close>: the empty name is no directory and cannot be
  made, so \<open>mkdir\<close> fails with \<open>FileNotFoundError\<close> and \<open>exist_ok\<close> does not
  apply; for every other name the environment decides.
\<close>

definition errno2 :: string where
  "errno2 = ''[Errno 2] No such file or directory: '' @ [CHR 0x27, CHR 0x27]"

definition makedirs :: "env \<Rightarrow> string \<Rightarrow> pstate \<Rightarrow> (exn + unit) \<times> pstate" where
  "makedirs env name s =
     (let s1 = call (Makedirs name) s
      in if name = [] then (Inl (Raised FileNotFoundError errno2), s1)
         else case mkdir_fails env name of
                Some e \<Rightarrow> (Inl e, s1)
              | None \<Rightarrow> (Inr (), s1))"

text \<open>Opening a file for output: mode \<open>a\<close> keeps what the file holds and creates it when
  it is missing, the writing modes empty it.\<close>

definition contents :: "pstate \<Rightarrow> string \<Rightarrow> string" where
  "contents s f = (case files s f of None \<Rightarrow> [] | Some c \<Rightarrow> c)"

definition open_file :: "env \<Rightarrow> string \<Rightarrow> string \<Rightarrow> pstate \<Rightarrow> (exn + unit) \<times> pstate" where
  "open_file env path mode s =
     (let s1 = call (OpenFile path mode) s
      in case open_fails env path of
           Some e \<Rightarrow> (Inl e, s1)
         | None \<Rightarrow>
             (Inr (), s1\<lparr>files := (files s1)(realpath env path \<mapsto>
                (if mode = ''a'' then contents s1 (realpath env path) else []))\<rparr>))"

text \<open>Writing the contents of a file that has been opened.\<close>

definition write_file :: "env \<Rightarrow> string \<Rightarrow> string \<Rightarrow> pstate \<Rightarrow> pstate" where
  "write_file env path c s = s\<lparr>files := (files s)(realpath env path \<mapsto> c)\<rparr>"

text \<open>
  \<open>print(line)\<close>: the line goes to standard output, unless the stream cannot encode it;
  then \<open>print\<close> raises \<open>UnicodeEncodeError\<close> and nothing is written.
\<close>

definition print_stdout :: "env \<Rightarrow> string \<Rightarrow> pstate \<Rightarrow> (exn + unit) \<times> pstate" where
  "print_stdout env line s =
     (case stdout_error env line of
        Some m \<Rightarrow> (Inl (Raised UnicodeEncodeError m), s)
      | None \<Rightarrow> (Inr (), s\<lparr>stdout := stdout s @ [line]\<rparr>))"

subsection \<open>The logging library\<close>

text \<open>
  The names of the \<open>logging\<close> module that \<open>getattr(logging, log_level, logging.INFO)\<close>
  can hit: the level constants, the module's logging functions, and whatever else the
  module holds (left to the environment).
\<close>

definition logging_levels :: "(string \<times> int) list" where
  "logging_levels =
     [(''CRITICAL'', 50), (''FATAL'', 50), (''ERROR'', 40), (''WARNING'', 30),
      (''WARN'', 30), (''INFO'', 20), (''DEBUG'', 10), (''NOTSET'', 0)]"

definition logging_functions :: "string list" where
  "logging_functions =
     [''debug'', ''info'', ''warning'', ''warn'', ''error'', ''exception'',
      ''critical'', ''fatal'', ''log'', ''disable'', ''basicConfig'', ''getLogger'',
      ''shutdown'']"

definition logging_getattr :: "env \<Rightarrow> string \<Rightarrow> pyval \<Rightarrow> pyval" where
  "logging_getattr env name dflt =
     (case map_of logging_levels name of
        Some n \<Rightarrow> PyInt n
      | None \<Rightarrow>
          if name \<in> set logging_functions then PyObject (function_repr env name)
          else (case logging_other_attr env name of Some v \<Rightarrow> v | None \<Rightarrow> dflt))"

text \<open>
  \<open>logging._checkLevel\<close>, which \<open>setLevel\<close> applies: an integer is taken as it is
  (a boolean is an integer in Python), a string must be a level name, anything else is a
  \<open>TypeError\<close>. The messages end with the \<open>repr\<close> of the value.
\<close>

definition checkLevel :: "pyval \<Rightarrow> exn + int" where
  "checkLevel v =
     (case v of
        PyInt n \<Rightarrow> Inr n
      | PyBool b \<Rightarrow> Inr (if b then 1 else 0)
      | PyStr s r \<Rightarrow>
          (case map_of logging_levels s of
             Some n \<Rightarrow> Inr n
           | None \<Rightarrow> Inl (Raised ValueError (''Unknown level: '' @ r)))
      | PyObject r \<Rightarrow>
          Inl (Raised TypeError (''Level not an integer or a valid string: '' @ r)))"

definition root_level :: int where
  "root_level = 30"

definition newline :: string where
  "newline = [CHR 0x0A]"

text \<open>The file handler appends one line to the file that its path names.\<close>

definition emit_file :: "env \<Rightarrow> string \<Rightarrow> string \<Rightarrow> pstate \<Rightarrow> pstate" where
  "emit_file env path line s =
     s\<lparr>files := (files s)(realpath env path \<mapsto>
        contents s (realpath env path) @ line @ newline)\<rparr>"

definition emit_stderr :: "string \<Rightarrow> pstate \<Rightarrow> pstate" where
  "emit_stderr line s = s\<lparr>stderr := stderr s @ [line]\<rparr>"

text \<open>
  \<open>logger.error(msg)\<close> on the logger \<open>TextSpeechLogger\<close>. The record is made when
  ERROR (40) reaches the effective level of the logger (its own level, or the root's
  WARNING when its own is NOTSET). It then goes to the file handler (level NOTSET), to
  the console handler (level INFO, on standard error) and, since the logger propagates,
  to the root's handler if \<open>basicConfig\<close> has installed one; with no handler at all the
  library's last-resort handler prints the bare message.
\<close>

definition logger_error :: "env \<Rightarrow> string \<Rightarrow> pstate \<Rightarrow> pstate" where
  "logger_error env msg s =
     (let s0 = call (LogCall ''TextSpeechLogger'' 40 msg) s;
          effective = (if logger_level s0 \<noteq> 0 then logger_level s0 else root_level)
      in if 40 < effective then s0
         else
           let s1 = (case file_handler s0 of
                       Some p \<Rightarrow> emit_file env p (asctime env @ '' - ERROR - '' @ msg) s0
                     | None \<Rightarrow> s0);
               s2 = (if console_handler s1
                     then emit_stderr (asctime env @ '' : ERROR : '' @ msg) s1 else s1);
               s3 = (if root_handler s2
                     then emit_stderr (''ERROR:TextSpeechLogger:'' @ msg) s2 else s2)
           in if file_handler s0 = None \<and> \<not> console_handler s0 \<and> \<not> root_handler s0
              then emit_stderr msg s3 else s3)"

text \<open>
  \<open>logging.info(msg)\<close>, the function of the module: it logs on the root logger, after
  calling \<open>basicConfig()\<close> when the root has no handler yet. The root's level is
  WARNING, so an INFO record is dropped.
\<close>

definition logging_info :: "string \<Rightarrow> pstate \<Rightarrow> pstate" where
  "logging_info msg s =
     (let s0 = call (LogCall ''root'' 20 msg) s;
          s1 = (if root_handler s0 then s0 else s0\<lparr>root_handler := True\<rparr>)
      in if 20 < root_level then s1 else emit_stderr (''INFO:root:'' @ msg) s1)"

subsection \<open>Module initialisation (lines 27 to 49)\<close>

definition config_read :: "env \<Rightarrow> string \<Rightarrow> pstate \<Rightarrow> (exn + unit) \<times> pstate" where
  "config_read env filename s =
     (let s1 = call (ConfigRead filename) s
      in case read_ini env filename of
           None \<Rightarrow> (Inr (), s1)
         | Some (Inl e) \<Rightarrow> (Inl e, s1)
         | Some (Inr c) \<Rightarrow> (Inr (), s1\<lparr>config := c\<rparr>))"

definition module_init :: "env \<Rightarrow> pstate \<Rightarrow> (exn + unit) \<times> pstate" where
  "module_init env s =
     (case config_read env ''config.ini'' s of
        (Inl e, s1) \<Rightarrow> (Inl e, s1)
      | (Inr u, s1) \<Rightarrow>
     (case config_get env (config s1) ''Logging'' ''log_file'' ''logs/converter.log'' of
        Inl e \<Rightarrow> (Inl e, s1)
      | Inr log_file \<Rightarrow>
     (case config_get env (config s1) ''Logging'' ''log_level'' ''INFO'' of
        Inl e \<Rightarrow> (Inl e, s1)
      | Inr log_level \<Rightarrow>
     (case makedirs env (dirname log_file) s1 of
        (Inl e, s2) \<Rightarrow> (Inl e, s2)
      | (Inr u, s2) \<Rightarrow>
     (case checkLevel (logging_getattr env log_level (PyInt 20)) of
        Inl e \<Rightarrow> (Inl e, s2)
      | Inr lvl \<Rightarrow>
     (case open_file env log_file ''a'' (s2\<lparr>logger_level := lvl\<rparr>) of
        (Inl e, s3) \<Rightarrow> (Inl e, s3)
      | (Inr u, s3) \<Rightarrow>
          (Inr (), s3\<lparr>file_handler := Some log_file, console_handler := True\<rparr>)))))))"

subsection \<open>Text to speech (lines 51 to 62)\<close>

text \<open>
  \<open>tts.save(path)\<close> of the gTTS library opens the file for writing and then streams the
  provider's audio into it.
\<close>

definition gtts_save :: "env \<Rightarrow> string \<Rightarrow> string \<Rightarrow> string \<Rightarrow> pstate \<Rightarrow> (exn + unit) \<times> pstate" where
  "gtts_save env txt lg path s =
     (case open_file env path ''wb'' (call (GttsSave path) s) of
        (Inl e, s1) \<Rightarrow> (Inl e, s1)
      | (Inr u, s1) \<Rightarrow>
          (case synthesize env txt lg of
             Inl e \<Rightarrow> (Inl e, s1)
           | Inr a \<Rightarrow> (Inr (), write_file env path a s1)))"

text \<open>The body of the \<open>try\<close> block.\<close>

definition tts_try :: "env \<Rightarrow> string \<Rightarrow> string \<Rightarrow> pstate \<Rightarrow> (exn + unit) \<times> pstate" where
  "tts_try env txt output_path s =
     (let s1 = call (GttsInit txt ''en'') s
      in case gtts_init_fails env txt ''en'' of
           Some e \<Rightarrow> (Inl e, s1)
         | None \<Rightarrow>
             (case gtts_save env txt ''en'' output_path s1 of
                (Inl e, s2) \<Rightarrow> (Inl e, s2)
              | (Inr u, s2) \<Rightarrow>
                  print_stdout env (''Speech saved to: '' @ output_path)
                    (logging_info (''Speech saved to: '' @ output_path) s2)))"

definition convert_text_to_speech :: "env \<Rightarrow> string \<Rightarrow> string \<Rightarrow> pstate \<Rightarrow> (exn + unit) \<times> pstate" where
  "convert_text_to_speech env txt output_path s =
     (case tts_try env txt output_path s of
        (Inr u, s1) \<Rightarrow> (Inr (), s1)
      | (Inl e, s1) \<Rightarrow>
          if isinstance e PermissionError
          then (Inr (), logger_error env (''Permission denied while saving file: '' @ str e) s1)
          else if is_Exception e
          then (Inr (), logger_error env (''Unexpected error occured in TTS: '' @ str e) s1)
          else (Inl e, s1))"

subsection \<open>Speech to text (lines 64 to 80)\<close>

text \<open>Lines 67 to 69: load the audio and have it recognised.\<close>

definition stt_recognize :: "env \<Rightarrow> string \<Rightarrow> string \<Rightarrow> pstate \<Rightarrow> (exn + string) \<times> pstate" where
  "stt_recognize env audio_path language s =
     (let s1 = call (AudioFileEnter audio_path) s
      in case audio_file env audio_path of
           Inl e \<Rightarrow> (Inl e, s1)
         | Inr source \<Rightarrow>
             (let s2 = call RecordAudio s1
              in case record_audio env source of
                   Inl e \<Rightarrow> (Inl e, s2)
                 | Inr a \<Rightarrow>
                     (let s3 = call (RecognizeGoogle language) s2
                      in case recognize_google env a language of
                           Inl e \<Rightarrow> (Inl e, s3)
                         | Inr transcript \<Rightarrow> (Inr transcript, s3))))"

text \<open>The body of the \<open>try\<close> block: lines 67 to 71.\<close>

definition stt_try :: "env \<Rightarrow> string \<Rightarrow> string \<Rightarrow> string \<Rightarrow> pstate \<Rightarrow> (exn + unit) \<times> pstate" where
  "stt_try env audio_path output_path language s =
     (case stt_recognize env audio_path language s of
        (Inl e, s1) \<Rightarrow> (Inl e, s1)
      | (Inr transcript, s1) \<Rightarrow>
          (case open_file env output_path ''w'' s1 of
             (Inl e, s2) \<Rightarrow> (Inl e, s2)
           | (Inr u, s2) \<Rightarrow> (Inr (), write_file env output_path transcript s2)))"

definition convert_speech_to_text :: "env \<Rightarrow> string \<Rightarrow> string \<Rightarrow> string \<Rightarrow> pstate \<Rightarrow> (exn + unit) \<times> pstate" where
  "convert_speech_to_text env audio_path output_path language s =
     (case stt_try env audio_path output_path language s of
        (Inr u, s1) \<Rightarrow> (Inr (), s1)
      | (Inl e, s1) \<Rightarrow>
          if isinstance e FileNotFoundError
          then (Inr (), logger_error env (''Audio file not found: '' @ str e) s1)
          else if isinstance e UnknownValueError
          then (Inr (), logger_error env ''Speech was unintelligible.'' s1)
          else if isinstance e RequestError
          then (Inr (), logger_error env (''Sppech recognition API error: '' @ str e) s1)
          else if is_Exception e
          then (Inr (), logger_error env (''Unexpected error in STT: '' @ str e) s1)
          else (Inl e, s1))"

subsection \<open>The command line (lines 82 to 94)\<close>

text \<open>
  The parser has the optional subcommand \<open>command\<close> with the choices \<open>tts\<close> and
  \<open>stt\<close>; \<open>tts\<close> requires \<open>--text\<close>, \<open>stt\<close> requires \<open>--audio\<close> and takes
  \<open>--lang\<close> with the default \<open>en\<close>. The model follows \<open>argparse\<close> on command lines
  made of plain words (not starting with a dash), the options written out in full and
  the help flags; every other command line is left to the environment.
\<close>

definition plain :: "string \<Rightarrow> bool" where
  "plain t = (case t of [] \<Rightarrow> True | c # cs \<Rightarrow> c \<noteq> CHR ''-'')"

definition is_help :: "string \<Rightarrow> bool" where
  "is_help t = (t = ''-h'' \<or> t = ''--help'')"

definition no_command :: args where
  "no_command = \<lparr>command = None, text' = None, audio = None, lang = None\<rparr>"

text \<open>
  A subparser reads its arguments from left to right: a help flag ends the run at once,
  an option takes the next word as its value (the last occurrence wins), a word that
  belongs to no option is left over. At the end a missing required option is an error,
  and so is a left-over word.
\<close>

fun tts_parser :: "string option \<Rightarrow> bool \<Rightarrow> string list \<Rightarrow> parse_outcome" where
  "tts_parser txt extras [] =
     (case txt of
        None \<Rightarrow> UsageError
      | Some v \<Rightarrow>
          if extras then UsageError
          else Namespace \<lparr>command = Some ''tts'', text' = Some v, audio = None, lang = None\<rparr>)"
| "tts_parser txt extras [t] =
     (if is_help t then Help
      else if t = ''--text'' then UsageError
      else tts_parser txt True [])"
| "tts_parser txt extras (t # v # rest) =
     (if is_help t then Help
      else if t = ''--text''
      then (if plain v then tts_parser (Some v) extras rest else UsageError)
      else tts_parser txt True (v # rest))"

fun stt_parser :: "string option \<Rightarrow> string \<Rightarrow> bool \<Rightarrow> string list \<Rightarrow> parse_outcome" where
  "stt_parser aud lg extras [] =
     (case aud of
        None \<Rightarrow> UsageError
      | Some a \<Rightarrow>
          if extras then UsageError
          else Namespace \<lparr>command = Some ''stt'', text' = None, audio = Some a, lang = Some lg\<rparr>)"
| "stt_parser aud lg extras [t] =
     (if is_help t then Help
      else if t = ''--audio'' \<or> t = ''--lang'' then UsageError
      else stt_parser aud lg True [])"
| "stt_parser aud lg extras (t # v # rest) =
     (if is_help t then Help
      else if t = ''--audio''
      then (if plain v then stt_parser (Some v) lg extras rest else UsageError)
      else if t = ''--lang''
      then (if plain v then stt_parser aud v extras rest else UsageError)
      else stt_parser aud lg True (v # rest))"

definition tts_regular :: "string \<Rightarrow> bool" where
  "tts_regular t = (plain t \<or> is_help t \<or> t = ''--text'')"

definition stt_regular :: "string \<Rightarrow> bool" where
  "stt_regular t = (plain t \<or> is_help t \<or> t = ''--audio'' \<or> t = ''--lang'')"

definition parse_args :: "env \<Rightarrow> string list \<Rightarrow> parse_outcome" where
  "parse_args env argv =
     (case argv of
        [] \<Rightarrow> Namespace no_command
      | t # rest \<Rightarrow>
          if is_help t then Help
          else if \<not> plain t then argparse_other env argv
          else if t = ''tts''
          then (if list_all tts_regular rest then tts_parser None False rest
                else argparse_other env argv)
          else if t = ''stt''
          then (if list_all stt_regular rest then stt_parser None ''en'' False rest
                else argparse_other env argv)
          else UsageError)"

definition parse_cli_args :: "env \<Rightarrow> string list \<Rightarrow> pstate \<Rightarrow> (exn + args) \<times> pstate" where
  "parse_cli_args env argv s =
     (case parse_args env argv of
        Namespace a \<Rightarrow> (Inr a, s)
      | Help \<Rightarrow> (Inl (Raised (SystemExit 0) []), s\<lparr>stdout := stdout s @ [help_text env]\<rparr>)
      | UsageError \<Rightarrow> (Inl (Raised (SystemExit 2) []), s\<lparr>stderr := stderr s @ [usage_text env]\<rparr>))"

subsection \<open>The dispatcher (lines 96 to 114)\<close>

definition invalid_command :: string where
  "invalid_command =
     [CHR 0xE2, CHR 0x80, CHR 0x9A, CHR 0xC3, CHR 0xB9, CHR 0xC3, CHR 0xA5]
     @ '' Invalid command. Use --help for options.''"

definition attribute_error :: "string \<Rightarrow> exn" where
  "attribute_error name = Raised AttributeError (''Namespace object has no attribute '' @ name)"

definition main :: "env \<Rightarrow> string list \<Rightarrow> pstate \<Rightarrow> (exn + unit) \<times> pstate" where
  "main env argv s =
     (case parse_cli_args env argv s of
        (Inl e, s1) \<Rightarrow> (Inl e, s1)
      | (Inr a, s1) \<Rightarrow>
          if command a = Some ''tts'' then
            (case config_get env (config s1) ''TTS'' ''output_file'' ''output/speech_output.mp3'' of
               Inl e \<Rightarrow> (Inl e, s1)
             | Inr output_file \<Rightarrow>
                 (case makedirs env (dirname output_file) s1 of
                    (Inl e, s2) \<Rightarrow> (Inl e, s2)
                  | (Inr u, s2) \<Rightarrow>
                      (case text' a of
                         None \<Rightarrow> (Inl (attribute_error ''text''), s2)
                       | Some txt \<Rightarrow> convert_text_to_speech env txt output_file s2)))
          else if command a = Some ''stt'' then
            (case config_get env (config s1) ''STT'' ''output_file'' ''output/text_output.txt'' of
               Inl e \<Rightarrow> (Inl e, s1)
             | Inr output_file \<Rightarrow>
                 (case makedirs env (dirname output_file) s1 of
                    (Inl e, s2) \<Rightarrow> (Inl e, s2)
                  | (Inr u, s2) \<Rightarrow>
                      (case audio a of
                         None \<Rightarrow> (Inl (attribute_error ''audio''), s2)
                       | Some audio_path \<Rightarrow>
                           (case lang a of
                              None \<Rightarrow> (Inl (attribute_error ''lang''), s2)
                            | Some language \<Rightarrow>
                                convert_speech_to_text env audio_path output_file language s2))))
          else print_stdout env invalid_command s1)"

text \<open>
  One run of the script: the module is initialised, then \<open>main\<close> runs; the result is the
  exit status of the process and its last state.
\<close>

definition run :: "env \<Rightarrow> string list \<Rightarrow> (string \<rightharpoonup> string) \<Rightarrow> nat \<times> pstate" where
  "run env argv fs =
     (case module_init env (initial_state fs) of
        (Inl e, s) \<Rightarrow> (exit_status (Inl e), s)
      | (Inr u, s) \<Rightarrow>
          (case main env argv s of (r, s') \<Rightarrow> (exit_status r, s')))"

subsection \<open>Observations on a run\<close>

fun is_ConfigRead :: "event \<Rightarrow> bool" where
  "is_ConfigRead (ConfigRead f) = True"
| "is_ConfigRead ev = False"

fun is_OpenFile :: "event \<Rightarrow> bool" where
  "is_OpenFile (OpenFile p m) = True"
| "is_OpenFile ev = False"

text \<open>The calls that belong to a conversion: those to the two providers' libraries.\<close>

fun is_conversion :: "event \<Rightarrow> bool" where
  "is_conversion (GttsInit t l) = True"
| "is_conversion (GttsSave p) = True"
| "is_conversion (AudioFileEnter p) = True"
| "is_conversion RecordAudio = True"
| "is_conversion (RecognizeGoogle l) = True"
| "is_conversion ev = False"

text \<open>A request to the synthesis library is for English.\<close>

fun english_only :: "event \<Rightarrow> bool" where
  "english_only (GttsInit t l) = (l = ''en'')"
| "english_only ev = True"

text \<open>The records handed to the logger that the module configures.\<close>

fun is_logger_record :: "event \<Rightarrow> bool" where
  "is_logger_record (LogCall name lvl msg) = (name = ''TextSpeechLogger'')"
| "is_logger_record ev = False"

text \<open>The file that the file handler of the logger writes to.\<close>

definition log_file_of :: "env \<Rightarrow> pstate \<Rightarrow> string option" where
  "log_file_of env s = map_option (realpath env) (file_handler s)"

text \<open>A configuration lacks an option when \<open>config.get\<close> finds neither the section nor,
  in the section and in \<open>DEFAULT\<close>, the option.\<close>

definition lacks :: "ConfigParser \<Rightarrow> string \<Rightarrow> string \<Rightarrow> bool" where
  "lacks c section opt =
     (case sections c section of
        None \<Rightarrow> section \<noteq> ''DEFAULT'' \<or> defaults c opt = None
      | Some d \<Rightarrow> d opt = None \<and> defaults c opt = None)"

subsection \<open>Concrete environments\<close>

text \<open>
  An environment in which nothing fails: there is no \<open>config.ini\<close>, every directory
  can be made and every file opened, standard output takes every line, the synthesis
  provider answers, and the only audio file is \<open>speech.wav\<close>. A path that starts
  with \<open>./\<close> names the same file as the path without it.
\<close>

definition strip_dot :: "string \<Rightarrow> string" where
  "strip_dot p = (if take 2 p = ''./'' then drop 2 p else p)"

definition quiet_env :: env where
  "quiet_env =
     \<lparr>read_ini = (\<lambda>f. None),
      interpolate = (\<lambda>section opt v. Inl (Raised OtherException ''InterpolationSyntaxError'')),
      logging_other_attr = (\<lambda>name. None),
      function_repr = (\<lambda>name. ''<function '' @ name @ '' at 0x7f4a4a8ae480>''),
      realpath = strip_dot,
      stdout_error = (\<lambda>line. None),
      mkdir_fails = (\<lambda>d. None),
      open_fails = (\<lambda>p. None),
      asctime = ''2025-01-01 12:00:00,000'',
      gtts_init_fails = (\<lambda>t l. None),
      synthesize = (\<lambda>t l. Inr (''audio:'' @ l @ '':'' @ t)),
      audio_file = (\<lambda>p. if p = ''speech.wav'' then Inr ''wav''
                         else Inl (Raised FileNotFoundError (''No such file: '' @ p))),
      record_audio = (\<lambda>source. Inr source),
      recognize_google = (\<lambda>a l. Inr ''hello world''),
      argparse_other = (\<lambda>argv. UsageError),
      help_text = ''usage'',
      usage_text = ''error''\<rparr>"

text \<open>The same environment with a \<open>config.ini\<close> that holds one option.\<close>

definition one_option :: "string \<Rightarrow> string \<Rightarrow> string \<Rightarrow> ConfigParser" where
  "one_option section opt v =
     \<lparr>sections = [section \<mapsto> [opt \<mapsto> v]], defaults = Map.empty\<rparr>"

definition ini_env :: "ConfigParser \<Rightarrow> env" where
  "ini_env c = quiet_env\<lparr>read_ini := (\<lambda>f. if f = ''config.ini'' then Some (Inr c) else None)\<rparr>"

text \<open>The state in which \<open>main\<close> starts: the module initialised on an empty directory.\<close>

definition started :: "env \<Rightarrow> pstate" where
  "started env = snd (module_init env (initial_state Map.empty))"

text \<open>The output file of the synthesis cannot be written.\<close>

definition readonly_env :: env where
  "readonly_env =
     quiet_env\<lparr>open_fails :=
       (\<lambda>p. if p = ''output/speech_output.mp3''
            then Some (Raised PermissionError ''[Errno 13] Permission denied'') else None)\<rparr>"


text \<open>A \<open>config.ini\<close> with the log level written in lower case.\<close>

abbreviation lowercase_level_env :: env where
  "lowercase_level_env \<equiv> ini_env (one_option ''Logging'' ''log_level'' ''info'')"

text \<open>A \<open>config.ini\<close> whose output file for the synthesis has no directory.\<close>

abbreviation bare_output_env :: env where
  "bare_output_env \<equiv> ini_env (one_option ''TTS'' ''output_file'' ''out.mp3'')"

text \<open>The providers are interrupted from the keyboard.\<close>

definition interrupted_env :: env where
  "interrupted_env =
     quiet_env\<lparr>synthesize := (\<lambda>t l. Inl (Raised KeyboardInterrupt [])),
               recognize_google := (\<lambda>a l. Inl (Raised KeyboardInterrupt []))\<rparr>"

text \<open>A \<open>config.ini\<close> that sets the log level to CRITICAL, and the same with an output
  file of the synthesis that cannot be written.\<close>

abbreviation critical_env :: env where
  "critical_env \<equiv> ini_env (one_option ''Logging'' ''log_level'' ''CRITICAL'')"

definition critical_readonly_env :: env where
  "critical_readonly_env =
     critical_env\<lparr>open_fails :=
       (\<lambda>p. if p = ''output/speech_output.mp3''
            then Some (Raised PermissionError ''[Errno 13] Permission denied'') else None)\<rparr>"

text \<open>A standard output that encodes ASCII only.\<close>

definition ascii_stdout_env :: env where
  "ascii_stdout_env =
     quiet_env\<lparr>stdout_error :=
       (\<lambda>line. if list_all (\<lambda>c. (of_char c :: nat) < 128) line then None
              else Some ''ascii codec cannot encode the line'')\<rparr>"

text \<open>
  The state in which \<open>main\<close> starts when the module has been initialised on an empty
  directory with the default log file: the configuration read, the level set, the log
  file created and both handlers attached.
\<close>

definition ready :: "env \<Rightarrow> ConfigParser \<Rightarrow> int \<Rightarrow> pstate" where
  "ready env c n =
     \<lparr>config = c, logger_level = n,
      file_handler = Some ''logs/converter.log'', console_handler = True,
      root_handler = False, files = [realpath env ''logs/converter.log'' \<mapsto> []],
      stdout = [], stderr = [],
      trace = [ConfigRead ''config.ini'', Makedirs ''logs'',
               OpenFile ''logs/converter.log'' ''a'']\<rparr>"

section \<open>Properties\<close>

subsection \<open>What each step leaves alone\<close>

lemma call_fields [simp]:
  "config (call ev s) = config s" "files (call ev s) = files s"
  "trace (call ev s) = trace s @ [ev]" "file_handler (call ev s) = file_handler s"
  "logger_level (call ev s) = logger_level s" "stdout (call ev s) = stdout s"
  "stderr (call ev s) = stderr s" "console_handler (call ev s) = console_handler s"
  "root_handler (call ev s) = root_handler s"
  by (simp_all add: call_def)

lemma emit_file_fields [simp]:
  "config (emit_file env p l s) = config s" "trace (emit_file env p l s) = trace s"
  "file_handler (emit_file env p l s) = file_handler s"
  "stdout (emit_file env p l s) = stdout s" "stderr (emit_file env p l s) = stderr s"
  "logger_level (emit_file env p l s) = logger_level s"
  "console_handler (emit_file env p l s) = console_handler s"
  "root_handler (emit_file env p l s) = root_handler s"
  "f \<noteq> realpath env p \<Longrightarrow> files (emit_file env p l s) f = files s f"
  "files (emit_file env p l s) (realpath env p) = Some (contents s (realpath env p) @ l @ newline)"
  by (simp_all add: emit_file_def)

lemma write_file_fields [simp]:
  "config (write_file env p c s) = config s" "trace (write_file env p c s) = trace s"
  "file_handler (write_file env p c s) = file_handler s"
  "stdout (write_file env p c s) = stdout s" "stderr (write_file env p c s) = stderr s"
  "logger_level (write_file env p c s) = logger_level s"
  "console_handler (write_file env p c s) = console_handler s"
  "root_handler (write_file env p c s) = root_handler s"
  "files (write_file env p c s) = (files s)(realpath env p \<mapsto> c)"
  by (simp_all add: write_file_def)

lemma emit_stderr_fields [simp]:
  "config (emit_stderr l s) = config s" "trace (emit_stderr l s) = trace s"
  "files (emit_stderr l s) = files s" "file_handler (emit_stderr l s) = file_handler s"
  "stdout (emit_stderr l s) = stdout s"
  "console_handler (emit_stderr l s) = console_handler s"
  "root_handler (emit_stderr l s) = root_handler s"
  by (simp_all add: emit_stderr_def)

lemma print_stdout_fields [simp]:
  "config (snd (print_stdout env l s)) = config s"
  "trace (snd (print_stdout env l s)) = trace s"
  "files (snd (print_stdout env l s)) = files s"
  "file_handler (snd (print_stdout env l s)) = file_handler s"
  "stderr (snd (print_stdout env l s)) = stderr s"
  "logger_level (snd (print_stdout env l s)) = logger_level s"
  "console_handler (snd (print_stdout env l s)) = console_handler s"
  by (simp_all add: print_stdout_def split: option.splits)

lemma print_stdout_accepted:
  "stdout_error env l = None \<Longrightarrow>
   print_stdout env l s = (Inr (), s\<lparr>stdout := stdout s @ [l]\<rparr>)"
  by (simp add: print_stdout_def)

lemma print_stdout_raises:
  "fst (print_stdout env l s) = Inl e \<Longrightarrow> cls e = UnicodeEncodeError"
  by (auto simp add: print_stdout_def split: option.splits)

lemma logger_error_config [simp]: "config (logger_error env msg s) = config s"
  by (simp add: logger_error_def Let_def split: option.splits)

lemma logger_error_trace [simp]:
  "trace (logger_error env msg s) = trace s @ [LogCall ''TextSpeechLogger'' 40 msg]"
  by (simp add: logger_error_def Let_def split: option.splits)

lemma logger_error_stdout [simp]: "stdout (logger_error env msg s) = stdout s"
  by (simp add: logger_error_def Let_def split: option.splits)


lemma logging_info_fields [simp]:
  "config (logging_info msg s) = config s" "files (logging_info msg s) = files s"
  "trace (logging_info msg s) = trace s @ [LogCall ''root'' 20 msg]"
  "file_handler (logging_info msg s) = file_handler s"
  "stdout (logging_info msg s) = stdout s" "stderr (logging_info msg s) = stderr s"
  "logger_level (logging_info msg s) = logger_level s"
  "console_handler (logging_info msg s) = console_handler s"
  by (simp_all add: logging_info_def Let_def root_level_def)

lemma makedirs_fields [simp]:
  "config (snd (makedirs env d s)) = config s" "files (snd (makedirs env d s)) = files s"
  "trace (snd (makedirs env d s)) = trace s @ [Makedirs d]"
  "file_handler (snd (makedirs env d s)) = file_handler s"
  "stdout (snd (makedirs env d s)) = stdout s" "stderr (snd (makedirs env d s)) = stderr s"
  "logger_level (snd (makedirs env d s)) = logger_level s"
  by (simp_all add: makedirs_def Let_def split: option.splits)

lemma open_file_fields [simp]:
  "config (snd (open_file env p m s)) = config s"
  "trace (snd (open_file env p m s)) = trace s @ [OpenFile p m]"
  "file_handler (snd (open_file env p m s)) = file_handler s"
  "stdout (snd (open_file env p m s)) = stdout s"
  "stderr (snd (open_file env p m s)) = stderr s"
  "logger_level (snd (open_file env p m s)) = logger_level s"
  "console_handler (snd (open_file env p m s)) = console_handler s"
  "root_handler (snd (open_file env p m s)) = root_handler s"
  by (simp_all add: open_file_def Let_def split: option.splits)

lemma gtts_save_config [simp]: "config (snd (gtts_save env t l p s)) = config s"
  by (simp add: gtts_save_def case_prod_beta split: sum.splits)

lemma tts_try_config [simp]: "config (snd (tts_try env t p s)) = config s"
  by (simp add: tts_try_def Let_def case_prod_beta split: sum.splits option.splits)

lemma convert_text_to_speech_config [simp]:
  "config (snd (convert_text_to_speech env t p s)) = config s"
  by (simp add: convert_text_to_speech_def case_prod_beta split: sum.splits)

lemma stt_recognize_fields [simp]:
  "config (snd (stt_recognize env a l s)) = config s"
  "files (snd (stt_recognize env a l s)) = files s"
  "file_handler (snd (stt_recognize env a l s)) = file_handler s"
  "stdout (snd (stt_recognize env a l s)) = stdout s"
  "stderr (snd (stt_recognize env a l s)) = stderr s"
  "logger_level (snd (stt_recognize env a l s)) = logger_level s"
  "console_handler (snd (stt_recognize env a l s)) = console_handler s"
  by (simp_all add: stt_recognize_def Let_def split: sum.splits)

lemma stt_try_config [simp]: "config (snd (stt_try env a p l s)) = config s"
  by (simp add: stt_try_def case_prod_beta split: sum.splits)

lemma convert_speech_to_text_config [simp]:
  "config (snd (convert_speech_to_text env a p l s)) = config s"
  by (simp add: convert_speech_to_text_def case_prod_beta split: sum.splits)

lemma parse_cli_args_fields [simp]:
  "config (snd (parse_cli_args env argv s)) = config s"
  "trace (snd (parse_cli_args env argv s)) = trace s"
  "files (snd (parse_cli_args env argv s)) = files s"
  by (simp_all add: parse_cli_args_def split: parse_outcome.splits)

lemma main_config [simp]: "config (snd (main env argv s)) = config s"
  by (simp add: main_def case_prod_beta split: sum.splits option.splits)

subsection \<open>The concrete environments\<close>

lemma strip_dot_paths [simp]:
  "strip_dot ''logs/converter.log'' = ''logs/converter.log''"
  "strip_dot ''./logs/converter.log'' = ''logs/converter.log''"
  "strip_dot ''output/speech_output.mp3'' = ''output/speech_output.mp3''"
  "strip_dot ''output/text_output.txt'' = ''output/text_output.txt''"
  by (simp_all add: strip_dot_def)

lemma quiet_env_fields [simp]:
  "read_ini quiet_env f = None"
  "logging_other_attr quiet_env name = None"
  "function_repr quiet_env name = ''<function '' @ name @ '' at 0x7f4a4a8ae480>''"
  "realpath quiet_env = strip_dot"
  "stdout_error quiet_env line = None"
  "mkdir_fails quiet_env d = None"
  "open_fails quiet_env p = None"
  "asctime quiet_env = ''2025-01-01 12:00:00,000''"
  "gtts_init_fails quiet_env t l = None"
  "synthesize quiet_env t l = Inr (''audio:'' @ l @ '':'' @ t)"
  "audio_file quiet_env p = (if p = ''speech.wav'' then Inr ''wav''
                             else Inl (Raised FileNotFoundError (''No such file: '' @ p)))"
  "record_audio quiet_env source = Inr source"
  "recognize_google quiet_env a l = Inr ''hello world''"
  "argparse_other quiet_env argv = UsageError"
  "help_text quiet_env = ''usage''"
  "usage_text quiet_env = ''error''"
  by (simp_all add: quiet_env_def)

lemma ini_env_fields [simp]:
  "read_ini (ini_env c) f = (if f = ''config.ini'' then Some (Inr c) else None)"
  "logging_other_attr (ini_env c) = logging_other_attr quiet_env"
  "function_repr (ini_env c) = function_repr quiet_env"
  "realpath (ini_env c) = realpath quiet_env"
  "stdout_error (ini_env c) = stdout_error quiet_env"
  "mkdir_fails (ini_env c) = mkdir_fails quiet_env"
  "open_fails (ini_env c) = open_fails quiet_env"
  "asctime (ini_env c) = asctime quiet_env"
  "gtts_init_fails (ini_env c) = gtts_init_fails quiet_env"
  "synthesize (ini_env c) = synthesize quiet_env"
  "audio_file (ini_env c) = audio_file quiet_env"
  "record_audio (ini_env c) = record_audio quiet_env"
  "recognize_google (ini_env c) = recognize_google quiet_env"
  "argparse_other (ini_env c) = argparse_other quiet_env"
  "help_text (ini_env c) = help_text quiet_env"
  "usage_text (ini_env c) = usage_text quiet_env"
  by (simp_all add: ini_env_def)

lemma readonly_env_fields [simp]:
  "read_ini readonly_env = read_ini quiet_env"
  "logging_other_attr readonly_env = logging_other_attr quiet_env"
  "realpath readonly_env = realpath quiet_env"
  "stdout_error readonly_env = stdout_error quiet_env"
  "mkdir_fails readonly_env = mkdir_fails quiet_env"
  "gtts_init_fails readonly_env = gtts_init_fails quiet_env"
  "open_fails readonly_env p = (if p = ''output/speech_output.mp3''
       then Some (Raised PermissionError ''[Errno 13] Permission denied'') else None)"
  "asctime readonly_env = asctime quiet_env"
  by (simp_all add: readonly_env_def)

lemma interrupted_env_fields [simp]:
  "read_ini interrupted_env = read_ini quiet_env"
  "logging_other_attr interrupted_env = logging_other_attr quiet_env"
  "realpath interrupted_env = realpath quiet_env"
  "stdout_error interrupted_env = stdout_error quiet_env"
  "mkdir_fails interrupted_env = mkdir_fails quiet_env"
  "open_fails interrupted_env = open_fails quiet_env"
  "gtts_init_fails interrupted_env = gtts_init_fails quiet_env"
  "audio_file interrupted_env = audio_file quiet_env"
  "record_audio interrupted_env = record_audio quiet_env"
  "asctime interrupted_env = asctime quiet_env"
  "synthesize interrupted_env t l = Inl (Raised KeyboardInterrupt [])"
  "recognize_google interrupted_env a l = Inl (Raised KeyboardInterrupt [])"
  by (simp_all add: interrupted_env_def)

lemma critical_readonly_env_fields [simp]:
  "read_ini critical_readonly_env = read_ini critical_env"
  "logging_other_attr critical_readonly_env = logging_other_attr quiet_env"
  "realpath critical_readonly_env = realpath quiet_env"
  "stdout_error critical_readonly_env = stdout_error quiet_env"
  "mkdir_fails critical_readonly_env = mkdir_fails quiet_env"
  "gtts_init_fails critical_readonly_env = gtts_init_fails quiet_env"
  "open_fails critical_readonly_env p = (if p = ''output/speech_output.mp3''
       then Some (Raised PermissionError ''[Errno 13] Permission denied'') else None)"
  "asctime critical_readonly_env = asctime quiet_env"
  by (simp_all add: critical_readonly_env_def)

lemma ascii_stdout_env_fields [simp]:
  "read_ini ascii_stdout_env = read_ini quiet_env"
  "logging_other_attr ascii_stdout_env = logging_other_attr quiet_env"
  "realpath ascii_stdout_env = realpath quiet_env"
  "mkdir_fails ascii_stdout_env = mkdir_fails quiet_env"
  "open_fails ascii_stdout_env = open_fails quiet_env"
  "argparse_other ascii_stdout_env = argparse_other quiet_env"
  "stdout_error ascii_stdout_env line =
     (if list_all (\<lambda>c. (of_char c :: nat) < 128) line then None
      else Some ''ascii codec cannot encode the line'')"
  by (simp_all add: ascii_stdout_env_def)

lemma config_get_lacks:
  "lacks c section opt \<Longrightarrow> config_get env c section opt fallback = Inr fallback"
  by (auto simp add: lacks_def config_get_def split: option.splits)

lemma lacks_empty_config: "lacks empty_config section opt"
  by (simp add: lacks_def empty_config_def)

lemma dirname_logs: "dirname ''logs/converter.log'' = ''logs''"
  by (simp add: dirname_def rstrip_sep_def)

lemma dirname_output:
  "dirname ''output/speech_output.mp3'' = ''output''"
  "dirname ''output/text_output.txt'' = ''output''"
  by (simp_all add: dirname_def rstrip_sep_def)

lemma checkLevel_INFO: "checkLevel (logging_getattr env ''INFO'' (PyInt 20)) = Inr 20"
  by (simp add: checkLevel_def logging_getattr_def logging_levels_def)


lemma ready_fields [simp]:
  "config (ready env c n) = c" "logger_level (ready env c n) = n"
  "file_handler (ready env c n) = Some ''logs/converter.log''"
  "console_handler (ready env c n) = True" "root_handler (ready env c n) = False"
  "files (ready env c n) = [realpath env ''logs/converter.log'' \<mapsto> []]"
  "stdout (ready env c n) = []" "stderr (ready env c n) = []"
  "trace (ready env c n) = [ConfigRead ''config.ini'', Makedirs ''logs'',
               OpenFile ''logs/converter.log'' ''a'']"
  by (simp_all add: ready_def)

lemma module_init_ready:
  assumes "read_ini env ''config.ini'' = None \<and> c = empty_config \<or>
           read_ini env ''config.ini'' = Some (Inr c)"
    and "config_get env c ''Logging'' ''log_file'' ''logs/converter.log''
           = Inr ''logs/converter.log''"
    and "config_get env c ''Logging'' ''log_level'' ''INFO'' = Inr lv"
    and "checkLevel (logging_getattr env lv (PyInt 20)) = Inr n"
    and "mkdir_fails env ''logs'' = None" and "open_fails env ''logs/converter.log'' = None"
  shows "module_init env (initial_state Map.empty) = (Inr (), ready env c n)"
proof -
  have r: "config_read env ''config.ini'' (initial_state Map.empty) =
             (Inr (), \<lparr>config = c, logger_level = 0, file_handler = None,
                console_handler = False, root_handler = False, files = Map.empty,
                stdout = [], stderr = [], trace = [ConfigRead ''config.ini'']\<rparr>)"
    using assms(1) by (auto simp add: config_read_def call_def initial_state_def)
  show ?thesis
    by (simp add: module_init_def r assms(2-6) dirname_logs makedirs_def open_file_def
        call_def contents_def ready_def Let_def)
qed

lemma started_ready:
  "module_init env (initial_state Map.empty) = (Inr (), ready env c n) \<Longrightarrow>
   started env = ready env c n"
  by (simp add: started_def)

lemma module_init_quiet:
  "module_init quiet_env (initial_state Map.empty) = (Inr (), ready quiet_env empty_config 20)"
  by (rule module_init_ready [where lv = "''INFO''"])
     (simp_all add: config_get_lacks lacks_empty_config checkLevel_INFO)

lemma started_quiet: "started quiet_env = ready quiet_env empty_config 20"
  by (rule started_ready [OF module_init_quiet])

lemma module_init_ini:
  assumes "lacks c ''Logging'' ''log_file''" and "lacks c ''Logging'' ''log_level''"
  shows "module_init (ini_env c) (initial_state Map.empty) = (Inr (), ready (ini_env c) c 20)"
  by (rule module_init_ready [where lv = "''INFO''"])
     (simp_all add: config_get_lacks assms checkLevel_INFO)

lemma started_ini:
  assumes "lacks c ''Logging'' ''log_file''" and "lacks c ''Logging'' ''log_level''"
  shows "started (ini_env c) = ready (ini_env c) c 20"
  by (rule started_ready [OF module_init_ini [OF assms]])

subsection \<open>The configuration is read once and never written\<close>

lemma logger_error_reads [simp]:
  "filter is_ConfigRead (trace (logger_error env msg s)) = filter is_ConfigRead (trace s)"
  by simp

lemma gtts_save_reads [simp]:
  "filter is_ConfigRead (trace (snd (gtts_save env t l p s))) = filter is_ConfigRead (trace s)"
  by (simp add: gtts_save_def case_prod_beta split: sum.splits)

lemma tts_try_reads [simp]:
  "filter is_ConfigRead (trace (snd (tts_try env t p s))) = filter is_ConfigRead (trace s)"
  by (simp add: tts_try_def Let_def case_prod_beta split: sum.splits option.splits)

lemma convert_text_to_speech_reads [simp]:
  "filter is_ConfigRead (trace (snd (convert_text_to_speech env t p s)))
     = filter is_ConfigRead (trace s)"
  by (simp add: convert_text_to_speech_def case_prod_beta split: sum.splits)

lemma stt_recognize_reads [simp]:
  "filter is_ConfigRead (trace (snd (stt_recognize env a l s))) = filter is_ConfigRead (trace s)"
  by (simp add: stt_recognize_def Let_def split: sum.splits)

lemma stt_try_reads [simp]:
  "filter is_ConfigRead (trace (snd (stt_try env a p l s))) = filter is_ConfigRead (trace s)"
  by (simp add: stt_try_def case_prod_beta split: sum.splits)

lemma convert_speech_to_text_reads [simp]:
  "filter is_ConfigRead (trace (snd (convert_speech_to_text env a p l s)))
     = filter is_ConfigRead (trace s)"
  by (simp add: convert_speech_to_text_def case_prod_beta split: sum.splits)

lemma main_reads [simp]:
  "filter is_ConfigRead (trace (snd (main env argv s))) = filter is_ConfigRead (trace s)"
  by (simp add: main_def case_prod_beta split: sum.splits option.splits)

lemma config_read_reads [simp]:
  "filter is_ConfigRead (trace (snd (config_read env f s)))
     = filter is_ConfigRead (trace s) @ [ConfigRead f]"
  by (simp add: config_read_def Let_def split: option.splits sum.splits)

lemma module_init_reads [simp]:
  "filter is_ConfigRead (trace (snd (module_init env s)))
     = filter is_ConfigRead (trace s) @ [ConfigRead ''config.ini'']"
  by (simp add: module_init_def case_prod_beta split: sum.splits)




subsection \<open>What \<open>logger.error\<close> writes\<close>

lemma logger_error_fields [simp]:
  "file_handler (logger_error env msg s) = file_handler s"
  "logger_level (logger_error env msg s) = logger_level s"
  by (simp_all add: logger_error_def Let_def emit_stderr_def emit_file_def call_def
      split: option.splits)

lemma logger_error_file:
  assumes "logger_level s \<le> 40" and "file_handler s = Some p"
  shows "files (logger_error env msg s) (realpath env p) =
           Some (contents s (realpath env p) @ asctime env @ '' - ERROR - '' @ msg @ newline)"
  using assms
  by (simp add: logger_error_def root_level_def Let_def emit_file_def contents_def call_def)



subsection \<open>Failures of the conversions\<close>


lemma stt_try_missing:
  assumes "audio_file env ''missing.wav''
             = Inl (Raised FileNotFoundError ''No such file: missing.wav'')"
  shows "stt_try env ''missing.wav'' out ''en'' s =
     (Inl (Raised FileNotFoundError ''No such file: missing.wav''),
      call (AudioFileEnter ''missing.wav'') s)"
  by (simp add: stt_try_def stt_recognize_def Let_def assms)














subsection \<open>A failed recognition writes no transcript\<close>

lemma stt_recognize_trace_opens [simp]:
  "filter is_OpenFile (trace (snd (stt_recognize env a l s))) = filter is_OpenFile (trace s)"
  by (simp add: stt_recognize_def Let_def split: sum.splits)

lemma stt_recognize_log_file [simp]:
  "log_file_of env (snd (stt_recognize env a l s)) = log_file_of env s"
  by (simp add: log_file_of_def)



lemma logger_error_on_ready:
  "n \<le> 40 \<Longrightarrow>
   files (logger_error env msg (call ev (ready env c n))) (realpath env ''logs/converter.log'')
     = Some (asctime env @ '' - ERROR - '' @ msg @ newline)"
  by (simp add: logger_error_file contents_def)




text \<open>
  A destination that names the log file by another path is the log file: the failed
  call appends the error record to it.
\<close>

lemma destination_alias_of_the_log_file:
  "file_handler (started quiet_env) \<noteq> Some ''./logs/converter.log'' \<and>
   log_file_of quiet_env (started quiet_env)
     = Some (realpath quiet_env ''./logs/converter.log'') \<and>
   files (snd (convert_speech_to_text quiet_env ''missing.wav'' ''./logs/converter.log''
                 ''en'' (started quiet_env))) (realpath quiet_env ''./logs/converter.log'')
     = Some (''2025-01-01 12:00:00,000 - ERROR - Audio file not found: No such file: missing.wav''
             @ newline)"
  by (simp add: convert_speech_to_text_def stt_try_missing isinstance_def started_quiet
      log_file_of_def logger_error_on_ready [where env = quiet_env, simplified])

subsection \<open>The dispatcher, branch by branch\<close>

lemma parse_cli_args_ok:
  "fst (parse_cli_args env argv s) = Inr a \<Longrightarrow> parse_cli_args env argv s = (Inr a, s)"
  by (simp add: parse_cli_args_def split: parse_outcome.splits)

lemma main_tts:
  assumes "fst (parse_cli_args env argv s) = Inr a" and "command a = Some ''tts''"
    and "config_get env (config s) ''TTS'' ''output_file'' ''output/speech_output.mp3'' = Inr out"
  shows "main env argv s =
           (case makedirs env (dirname out) s of
              (Inl e, s2) \<Rightarrow> (Inl e, s2)
            | (Inr u, s2) \<Rightarrow>
                (case text' a of
                   None \<Rightarrow> (Inl (attribute_error ''text''), s2)
                 | Some txt \<Rightarrow> convert_text_to_speech env txt out s2))"
  by (simp add: main_def parse_cli_args_ok [OF assms(1)] assms(2,3))

lemma main_stt:
  assumes "fst (parse_cli_args env argv s) = Inr a" and "command a = Some ''stt''"
    and "config_get env (config s) ''STT'' ''output_file'' ''output/text_output.txt'' = Inr out"
  shows "main env argv s =
           (case makedirs env (dirname out) s of
              (Inl e, s2) \<Rightarrow> (Inl e, s2)
            | (Inr u, s2) \<Rightarrow>
                (case audio a of
                   None \<Rightarrow> (Inl (attribute_error ''audio''), s2)
                 | Some audio_path \<Rightarrow>
                     (case lang a of
                        None \<Rightarrow> (Inl (attribute_error ''lang''), s2)
                      | Some language \<Rightarrow>
                          convert_speech_to_text env audio_path out language s2)))"
  by (simp add: main_def parse_cli_args_ok [OF assms(1)] assms(2,3))


lemma rstrip_sep_Nil: "rstrip_sep xs = [] \<longleftrightarrow> (\<forall>c\<in>set xs. c = CHR ''/'')"
  by (simp add: rstrip_sep_def dropWhile_eq_Nil_conv)

lemma all_slashes: "(\<forall>c\<in>set xs. c = CHR ''/'') \<longleftrightarrow> xs = replicate (length xs) (CHR ''/'')"
  by (metis in_set_replicate replicate_length_same)

lemma dirname_empty_iff: "dirname p = [] \<longleftrightarrow> CHR ''/'' \<notin> set p"
proof -
  have h: "rev (dropWhile (\<lambda>c. c \<noteq> CHR ''/'') (rev p)) = [] \<longleftrightarrow> CHR ''/'' \<notin> set p"
    by (auto simp add: dropWhile_eq_Nil_conv)
  show ?thesis
    using h all_slashes [of "rev (dropWhile (\<lambda>c. c \<noteq> CHR ''/'') (rev p))"]
    by (auto simp add: dirname_def Let_def rstrip_sep_Nil)
qed

lemma makedirs_empty:
  "makedirs env [] s = (Inl (Raised FileNotFoundError errno2), call (Makedirs []) s)"
  by (simp add: makedirs_def)

lemma module_init_conversions [simp]:
  "filter is_conversion (trace (snd (module_init env s))) = filter is_conversion (trace s)"
  by (simp add: module_init_def config_read_def Let_def case_prod_beta
      split: sum.splits option.splits)

subsection \<open>Paths without a directory\<close>

text \<open>
  Claim C10. A path without a slash has the empty \<open>dirname\<close>, and \<open>os.makedirs\<close>
  of the empty name raises \<open>FileNotFoundError\<close>. The call stands outside every
  \<open>try\<close> block. So when the configured output file of the chosen command has no
  directory part, \<open>main\<close> ends with that exception right after the \<open>makedirs\<close>
  call, before any call of a conversion and without a log record; and when the configured
  log file has none, the initialisation of the module ends with an exception (with this
  one, once the lookup of the log level on the line before has returned). The exit status
  of such a run is 1.
\<close>

theorem C10_bare_file_name_crashes:
  assumes "CHR ''/'' \<notin> set v"
  shows
    "(fst (parse_cli_args env argv s) = Inr a \<longrightarrow> command a = Some ''tts'' \<longrightarrow>
      config_get env (config s) ''TTS'' ''output_file'' ''output/speech_output.mp3'' = Inr v \<longrightarrow>
        main env argv s = (Inl (Raised FileNotFoundError errno2), call (Makedirs []) s)) \<and>
     (fst (parse_cli_args env argv s) = Inr a \<longrightarrow> command a = Some ''stt'' \<longrightarrow>
      config_get env (config s) ''STT'' ''output_file'' ''output/text_output.txt'' = Inr v \<longrightarrow>
        main env argv s = (Inl (Raised FileNotFoundError errno2), call (Makedirs []) s)) \<and>
     (fst (config_read env ''config.ini'' s) = Inr () \<longrightarrow>
      config_get env (config (snd (config_read env ''config.ini'' s)))
        ''Logging'' ''log_file'' ''logs/converter.log'' = Inr v \<longrightarrow>
        (\<exists>e. fst (module_init env s) = Inl e) \<and>
        (\<forall>l. config_get env (config (snd (config_read env ''config.ini'' s)))
               ''Logging'' ''log_level'' ''INFO'' = Inr l \<longrightarrow>
             module_init env s =
               (Inl (Raised FileNotFoundError errno2),
                call (Makedirs []) (snd (config_read env ''config.ini'' s))))) \<and>
     exit_status (Inl (Raised FileNotFoundError errno2)) = 1 \<and>
     filter is_conversion (trace (call (Makedirs []) s)) = filter is_conversion (trace s)"
proof -
  have d: "dirname v = []" using assms by (simp add: dirname_empty_iff)
  have t: "fst (parse_cli_args env argv s) = Inr a \<Longrightarrow> command a = Some ''tts'' \<Longrightarrow>
      config_get env (config s) ''TTS'' ''output_file'' ''output/speech_output.mp3'' = Inr v \<Longrightarrow>
        main env argv s = (Inl (Raised FileNotFoundError errno2), call (Makedirs []) s)"
    by (simp add: main_tts d makedirs_empty)
  have u: "fst (parse_cli_args env argv s) = Inr a \<Longrightarrow> command a = Some ''stt'' \<Longrightarrow>
      config_get env (config s) ''STT'' ''output_file'' ''output/text_output.txt'' = Inr v \<Longrightarrow>
        main env argv s = (Inl (Raised FileNotFoundError errno2), call (Makedirs []) s)"
    by (simp add: main_stt d makedirs_empty)
  have m: "fst (config_read env ''config.ini'' s) = Inr () \<Longrightarrow>
      config_get env (config (snd (config_read env ''config.ini'' s)))
        ''Logging'' ''log_file'' ''logs/converter.log'' = Inr v \<Longrightarrow>
        (\<exists>e. fst (module_init env s) = Inl e) \<and>
        (\<forall>l. config_get env (config (snd (config_read env ''config.ini'' s)))
               ''Logging'' ''log_level'' ''INFO'' = Inr l \<longrightarrow>
             module_init env s =
               (Inl (Raised FileNotFoundError errno2),
                call (Makedirs []) (snd (config_read env ''config.ini'' s))))"
    by (auto simp add: module_init_def case_prod_beta d makedirs_empty split: sum.splits)
  from t u m show ?thesis by simp
qed

lemma parse_tts_hello:
  "parse_cli_args env [''tts'', ''--text'', ''hello''] s =
     (Inr \<lparr>command = Some ''tts'', text' = Some ''hello'', audio = None, lang = None\<rparr>, s)"
  by (simp add: parse_cli_args_def parse_args_def is_help_def plain_def tts_regular_def)

lemma parse_stt_speech:
  "parse_cli_args env [''stt'', ''--audio'', ''speech.wav''] s =
     (Inr \<lparr>command = Some ''stt'', text' = None, audio = Some ''speech.wav'',
           lang = Some ''en''\<rparr>, s)"
  by (simp add: parse_cli_args_def parse_args_def is_help_def plain_def stt_regular_def)

lemma started_bare_output:
  "started bare_output_env
     = ready bare_output_env (one_option ''TTS'' ''output_file'' ''out.mp3'') 20"
  by (rule started_ini) (simp_all add: lacks_def one_option_def)

theorem C10_bare_file_name_crashes_witness:
  "CHR ''/'' \<notin> set ''out.mp3'' \<and>
   main bare_output_env [''tts'', ''--text'', ''hello''] (started bare_output_env) =
     (Inl (Raised FileNotFoundError errno2), call (Makedirs []) (started bare_output_env)) \<and>
   run bare_output_env [''tts'', ''--text'', ''hello''] Map.empty =
     (1, call (Makedirs []) (started bare_output_env))"
proof -
  have v: "CHR ''/'' \<notin> set ''out.mp3''" by simp
  have cfg: "config (started bare_output_env) = one_option ''TTS'' ''output_file'' ''out.mp3''"
    by (simp add: started_bare_output)
  have g: "config_get bare_output_env (config (started bare_output_env))
             ''TTS'' ''output_file'' ''output/speech_output.mp3'' = Inr ''out.mp3''"
    unfolding cfg by (simp add: config_get_def one_option_def)
  have i: "module_init bare_output_env (initial_state Map.empty)
             = (Inr (), started bare_output_env)"
    unfolding started_bare_output
    by (rule module_init_ini) (simp_all add: lacks_def one_option_def)
  have m: "main bare_output_env [''tts'', ''--text'', ''hello''] (started bare_output_env) =
     (Inl (Raised FileNotFoundError errno2), call (Makedirs []) (started bare_output_env))"
    using C10_bare_file_name_crashes [OF v, of bare_output_env
        "[''tts'', ''--text'', ''hello'']" "started bare_output_env"
        "\<lparr>command = Some ''tts'', text' = Some ''hello'', audio = None, lang = None\<rparr>"] g
    by (simp add: parse_tts_hello)
  have r: "run bare_output_env [''tts'', ''--text'', ''hello''] Map.empty =
     (1, call (Makedirs []) (started bare_output_env))"
    by (simp add: run_def i m)
  from v m r show ?thesis by simp
qed

subsection \<open>Commands that are neither \<open>tts\<close> nor \<open>stt\<close>\<close>






subsection \<open>Defaults\<close>

lemma module_init_defaults:
  assumes "fst (config_read env ''config.ini'' s) = Inr ()"
    and "lacks (config (snd (config_read env ''config.ini'' s))) ''Logging'' ''log_file''"
    and "lacks (config (snd (config_read env ''config.ini'' s))) ''Logging'' ''log_level''"
  shows "module_init env s =
           (case makedirs env ''logs'' (snd (config_read env ''config.ini'' s)) of
              (Inl e, s2) \<Rightarrow> (Inl e, s2)
            | (Inr u, s2) \<Rightarrow>
                (case open_file env ''logs/converter.log'' ''a'' (s2\<lparr>logger_level := 20\<rparr>) of
                   (Inl e, s3) \<Rightarrow> (Inl e, s3)
                 | (Inr u, s3) \<Rightarrow>
                     (Inr (), s3\<lparr>file_handler := Some ''logs/converter.log'',
                                 console_handler := True\<rparr>)))"
  using assms(1)
  by (simp add: module_init_def case_prod_beta config_get_lacks [OF assms(2)]
      config_get_lacks [OF assms(3)] dirname_logs checkLevel_INFO split: sum.splits)

lemma config_read_absent:
  "read_ini env f = None \<Longrightarrow> config_read env f s = (Inr (), call (ConfigRead f) s)"
  by (simp add: config_read_def)

lemma config_read_parsed:
  "read_ini env f = Some (Inr c) \<Longrightarrow>
   config_read env f s = (Inr (), (call (ConfigRead f) s)\<lparr>config := c\<rparr>)"
  by (simp add: config_read_def)

lemma logger_after_open:
  "fst (open_file env p m s) = Inr () \<Longrightarrow> logger_level (snd (open_file env p m s)) = logger_level s"
  by (simp add: open_file_def Let_def split: option.splits)

lemma module_init_default_logger:
  assumes "fst (config_read env ''config.ini'' s) = Inr ()"
    and "lacks (config (snd (config_read env ''config.ini'' s))) ''Logging'' ''log_file''"
    and "lacks (config (snd (config_read env ''config.ini'' s))) ''Logging'' ''log_level''"
    and "fst (module_init env s) = Inr ()"
  shows "file_handler (snd (module_init env s)) = Some ''logs/converter.log'' \<and>
         logger_level (snd (module_init env s)) = 20 \<and>
         trace (snd (module_init env s)) =
           trace s @ [ConfigRead ''config.ini'', Makedirs ''logs'',
                      OpenFile ''logs/converter.log'' ''a'']"
  using assms(4)
  unfolding module_init_defaults [OF assms(1-3)]
  by (auto simp add: case_prod_beta makedirs_def open_file_def config_read_def Let_def
      split: sum.splits option.splits)

text \<open>
  Claim C4. Without \<open>config.ini\<close> the configuration is empty. When the file is absent
  or lacks the two logging options, a module that initialises has made the directory
  \<open>logs\<close>, logs to \<open>logs/converter.log\<close> and has the level INFO (20). When the
  configuration lacks the output file of the chosen command, \<open>main\<close> makes the
  directory \<open>output\<close> and calls the conversion with \<open>output/speech_output.mp3\<close>
  (text to speech) or \<open>output/text_output.txt\<close> (speech to text).
\<close>

theorem C4_defaults_without_configuration:
  "(read_ini env ''config.ini'' = None \<longrightarrow>
      config (snd (module_init env (initial_state fs))) = empty_config) \<and>
   ((read_ini env ''config.ini'' = None \<or>
     (\<exists>c. read_ini env ''config.ini'' = Some (Inr c) \<and> lacks c ''Logging'' ''log_file'' \<and>
          lacks c ''Logging'' ''log_level'')) \<longrightarrow>
    fst (module_init env (initial_state fs)) = Inr () \<longrightarrow>
      file_handler (snd (module_init env (initial_state fs))) = Some ''logs/converter.log'' \<and>
      logger_level (snd (module_init env (initial_state fs))) = 20 \<and>
      trace (snd (module_init env (initial_state fs))) =
        [ConfigRead ''config.ini'', Makedirs ''logs'', OpenFile ''logs/converter.log'' ''a'']) \<and>
   (lacks (config s) ''TTS'' ''output_file'' \<longrightarrow>
    fst (parse_cli_args env argv s) = Inr a \<longrightarrow> command a = Some ''tts'' \<longrightarrow>
    text' a = Some txt \<longrightarrow>
      main env argv s =
        (case makedirs env ''output'' s of
           (Inl e, s2) \<Rightarrow> (Inl e, s2)
         | (Inr u, s2) \<Rightarrow> convert_text_to_speech env txt ''output/speech_output.mp3'' s2)) \<and>
   (lacks (config s) ''STT'' ''output_file'' \<longrightarrow>
    fst (parse_cli_args env argv s) = Inr a \<longrightarrow> command a = Some ''stt'' \<longrightarrow>
    audio a = Some audio_path \<longrightarrow> lang a = Some language \<longrightarrow>
      main env argv s =
        (case makedirs env ''output'' s of
           (Inl e, s2) \<Rightarrow> (Inl e, s2)
         | (Inr u, s2) \<Rightarrow>
             convert_speech_to_text env audio_path ''output/text_output.txt'' language s2))"
proof -
  have c: "read_ini env ''config.ini'' = None \<Longrightarrow>
      config (snd (module_init env (initial_state fs))) = empty_config"
    by (simp add: module_init_def case_prod_beta config_read_absent initial_state_def
        split: sum.splits)
  have i1: "read_ini env ''config.ini'' = None \<Longrightarrow>
    fst (module_init env (initial_state fs)) = Inr () \<Longrightarrow>
      file_handler (snd (module_init env (initial_state fs))) = Some ''logs/converter.log'' \<and>
      logger_level (snd (module_init env (initial_state fs))) = 20 \<and>
      trace (snd (module_init env (initial_state fs))) =
        [ConfigRead ''config.ini'', Makedirs ''logs'', OpenFile ''logs/converter.log'' ''a'']"
    using module_init_default_logger [of env "initial_state fs"]
    by (simp add: config_read_absent lacks_empty_config initial_state_def)
  have i2: "read_ini env ''config.ini'' = Some (Inr c) \<Longrightarrow> lacks c ''Logging'' ''log_file'' \<Longrightarrow>
    lacks c ''Logging'' ''log_level'' \<Longrightarrow>
    fst (module_init env (initial_state fs)) = Inr () \<Longrightarrow>
      file_handler (snd (module_init env (initial_state fs))) = Some ''logs/converter.log'' \<and>
      logger_level (snd (module_init env (initial_state fs))) = 20 \<and>
      trace (snd (module_init env (initial_state fs))) =
        [ConfigRead ''config.ini'', Makedirs ''logs'', OpenFile ''logs/converter.log'' ''a'']"
    for c
    using module_init_default_logger [of env "initial_state fs"]
    by (simp add: config_read_parsed initial_state_def)
  have t: "lacks (config s) ''TTS'' ''output_file'' \<Longrightarrow>
    fst (parse_cli_args env argv s) = Inr a \<Longrightarrow> command a = Some ''tts'' \<Longrightarrow>
    text' a = Some txt \<Longrightarrow>
      main env argv s =
        (case makedirs env ''output'' s of
           (Inl e, s2) \<Rightarrow> (Inl e, s2)
         | (Inr u, s2) \<Rightarrow> convert_text_to_speech env txt ''output/speech_output.mp3'' s2)"
    by (simp add: main_tts config_get_lacks dirname_output case_prod_beta split: sum.splits)
  have u: "lacks (config s) ''STT'' ''output_file'' \<Longrightarrow>
    fst (parse_cli_args env argv s) = Inr a \<Longrightarrow> command a = Some ''stt'' \<Longrightarrow>
    audio a = Some audio_path \<Longrightarrow> lang a = Some language \<Longrightarrow>
      main env argv s =
        (case makedirs env ''output'' s of
           (Inl e, s2) \<Rightarrow> (Inl e, s2)
         | (Inr u, s2) \<Rightarrow>
             convert_speech_to_text env audio_path ''output/text_output.txt'' language s2)"
    by (simp add: main_stt config_get_lacks dirname_output case_prod_beta split: sum.splits)
  from c i1 i2 t u show ?thesis by blast
qed

theorem C4_defaults_without_configuration_witness:
  "read_ini quiet_env ''config.ini'' = None \<and>
   module_init quiet_env (initial_state Map.empty) = (Inr (), started quiet_env) \<and>
   config (started quiet_env) = empty_config \<and>
   file_handler (started quiet_env) = Some ''logs/converter.log'' \<and>
   logger_level (started quiet_env) = 20 \<and>
   main quiet_env [''tts'', ''--text'', ''hello''] (started quiet_env) =
     convert_text_to_speech quiet_env ''hello'' ''output/speech_output.mp3''
       (call (Makedirs ''output'') (started quiet_env)) \<and>
   main quiet_env [''stt'', ''--audio'', ''speech.wav''] (started quiet_env) =
     convert_speech_to_text quiet_env ''speech.wav'' ''output/text_output.txt'' ''en''
       (call (Makedirs ''output'') (started quiet_env))"
proof -
  have l: "lacks (config (started quiet_env)) sec opt" for sec opt
    by (simp add: started_quiet lacks_empty_config)
  have m: "makedirs quiet_env ''output'' s = (Inr (), call (Makedirs ''output'') s)" for s
    by (simp add: makedirs_def)
  have t: "main quiet_env [''tts'', ''--text'', ''hello''] (started quiet_env) =
     convert_text_to_speech quiet_env ''hello'' ''output/speech_output.mp3''
       (call (Makedirs ''output'') (started quiet_env))"
    using C4_defaults_without_configuration
      [of quiet_env Map.empty "started quiet_env" "[''tts'', ''--text'', ''hello'']"
        "\<lparr>command = Some ''tts'', text' = Some ''hello'', audio = None, lang = None\<rparr>"
        "''hello''" "''x''" "''y''"] l
    by (simp add: parse_tts_hello m)
  have u: "main quiet_env [''stt'', ''--audio'', ''speech.wav''] (started quiet_env) =
     convert_speech_to_text quiet_env ''speech.wav'' ''output/text_output.txt'' ''en''
       (call (Makedirs ''output'') (started quiet_env))"
    using main_stt [of quiet_env "[''stt'', ''--audio'', ''speech.wav'']" "started quiet_env"
        "\<lparr>command = Some ''stt'', text' = None, audio = Some ''speech.wav'',
           lang = Some ''en''\<rparr>" "''output/text_output.txt''"] l
    by (simp add: parse_stt_speech m config_get_lacks dirname_output)
  from t u show ?thesis
    by (simp add: module_init_quiet) (simp add: started_quiet)
qed

subsection \<open>The language of the synthesis\<close>

lemma gtts_save_english [simp]:
  "list_all english_only (trace (snd (gtts_save env t l p s))) = list_all english_only (trace s)"
  by (simp add: gtts_save_def case_prod_beta split: sum.splits)

lemma tts_try_english [simp]:
  "list_all english_only (trace (snd (tts_try env t p s))) = list_all english_only (trace s)"
  by (simp add: tts_try_def Let_def case_prod_beta split: sum.splits option.splits)

lemma convert_text_to_speech_english [simp]:
  "list_all english_only (trace (snd (convert_text_to_speech env t p s)))
     = list_all english_only (trace s)"
  by (simp add: convert_text_to_speech_def case_prod_beta split: sum.splits)

lemma stt_recognize_english [simp]:
  "list_all english_only (trace (snd (stt_recognize env a l s)))
     = list_all english_only (trace s)"
  by (simp add: stt_recognize_def Let_def split: sum.splits)

lemma stt_try_english [simp]:
  "list_all english_only (trace (snd (stt_try env a p l s))) = list_all english_only (trace s)"
  by (simp add: stt_try_def case_prod_beta split: sum.splits)

lemma convert_speech_to_text_english [simp]:
  "list_all english_only (trace (snd (convert_speech_to_text env a p l s)))
     = list_all english_only (trace s)"
  by (simp add: convert_speech_to_text_def case_prod_beta split: sum.splits)

lemma main_english [simp]:
  "list_all english_only (trace (snd (main env argv s))) = list_all english_only (trace s)"
  by (simp add: main_def case_prod_beta split: sum.splits option.splits)

lemma module_init_english [simp]:
  "list_all english_only (trace (snd (module_init env s))) = list_all english_only (trace s)"
  by (simp add: module_init_def config_read_def Let_def case_prod_beta
      split: sum.splits option.splits)





lemma tts_try_saved:
  assumes "gtts_init_fails env txt ''en'' = None" and "open_fails env out = None"
    and "synthesize env txt ''en'' = Inr a"
  shows "tts_try env txt out s =
           print_stdout env (''Speech saved to: '' @ out)
             (logging_info (''Speech saved to: '' @ out)
                (write_file env out a
                   (snd (open_file env out ''wb''
                           (call (GttsSave out) (call (GttsInit txt ''en'') s))))))"
  by (simp add: tts_try_def gtts_save_def open_file_def Let_def assms)

lemma open_file_files:
  "open_fails env p = None \<Longrightarrow> m \<noteq> ''a'' \<Longrightarrow>
   files (snd (open_file env p m s)) = (files s)(realpath env p \<mapsto> [])"
  by (simp add: open_file_def Let_def)




lemma makedirs_quiet: "makedirs quiet_env ''output'' s = (Inr (), call (Makedirs ''output'') s)"
  by (simp add: makedirs_def)

lemma main_quiet_tts:
  "main quiet_env [''tts'', ''--text'', ''hello''] (started quiet_env) =
     convert_text_to_speech quiet_env ''hello'' ''output/speech_output.mp3''
       (call (Makedirs ''output'') (started quiet_env))"
proof -
  have g: "config_get quiet_env (config (started quiet_env)) ''TTS'' ''output_file''
             ''output/speech_output.mp3'' = Inr ''output/speech_output.mp3''"
    by (simp add: started_quiet config_get_lacks lacks_empty_config)
  show ?thesis
    using main_tts [of quiet_env "[''tts'', ''--text'', ''hello'']" "started quiet_env"
        "\<lparr>command = Some ''tts'', text' = Some ''hello'', audio = None, lang = None\<rparr>"
        "''output/speech_output.mp3''"] g
    by (simp add: parse_tts_hello makedirs_quiet dirname_output)
qed

lemma main_quiet_stt:
  "main quiet_env [''stt'', ''--audio'', ''speech.wav''] (started quiet_env) =
     convert_speech_to_text quiet_env ''speech.wav'' ''output/text_output.txt'' ''en''
       (call (Makedirs ''output'') (started quiet_env))"
proof -
  have g: "config_get quiet_env (config (started quiet_env)) ''STT'' ''output_file''
             ''output/text_output.txt'' = Inr ''output/text_output.txt''"
    by (simp add: started_quiet config_get_lacks lacks_empty_config)
  show ?thesis
    using main_stt [of quiet_env "[''stt'', ''--audio'', ''speech.wav'']" "started quiet_env"
        "\<lparr>command = Some ''stt'', text' = None, audio = Some ''speech.wav'',
           lang = Some ''en''\<rparr>" "''output/text_output.txt''"] g
    by (simp add: parse_stt_speech makedirs_quiet dirname_output)
qed

lemma stt_try_quiet_success:
  "stt_try quiet_env ''speech.wav'' out ''en'' s =
     (Inr (), write_file quiet_env out ''hello world''
                (snd (open_file quiet_env out ''w''
                        (call (RecognizeGoogle ''en'')
                           (call RecordAudio (call (AudioFileEnter ''speech.wav'') s))))))"
  by (simp add: stt_try_def stt_recognize_def open_file_def Let_def)

lemma run_quiet:
  "run quiet_env argv Map.empty =
     (case main quiet_env argv (started quiet_env) of (r, s) \<Rightarrow> (exit_status r, s))"
  by (simp add: run_def module_init_quiet started_quiet)

lemma run_quiet_tts:
  "run quiet_env [''tts'', ''--text'', ''hello''] Map.empty =
     (0, (logging_info ''Speech saved to: output/speech_output.mp3''
            (write_file quiet_env ''output/speech_output.mp3'' ''audio:en:hello''
               (snd (open_file quiet_env ''output/speech_output.mp3'' ''wb''
                  (call (GttsSave ''output/speech_output.mp3'')
                     (call (GttsInit ''hello'' ''en'')
                        (call (Makedirs ''output'') (started quiet_env))))))))
          \<lparr>stdout := [''Speech saved to: output/speech_output.mp3'']\<rparr>)"
proof -
  have t: "tts_try quiet_env ''hello'' ''output/speech_output.mp3'' s =
             print_stdout quiet_env (''Speech saved to: '' @ ''output/speech_output.mp3'')
               (logging_info (''Speech saved to: '' @ ''output/speech_output.mp3'')
                  (write_file quiet_env ''output/speech_output.mp3'' ''audio:en:hello''
                     (snd (open_file quiet_env ''output/speech_output.mp3'' ''wb''
                        (call (GttsSave ''output/speech_output.mp3'')
                           (call (GttsInit ''hello'' ''en'') s))))))" for s
    by (rule tts_try_saved) simp_all
  show ?thesis
    unfolding run_quiet main_quiet_tts convert_text_to_speech_def t
    by (simp add: print_stdout_accepted started_quiet)
qed

lemma run_quiet_stt:
  "run quiet_env [''stt'', ''--audio'', ''speech.wav''] Map.empty =
     (0, write_file quiet_env ''output/text_output.txt'' ''hello world''
           (snd (open_file quiet_env ''output/text_output.txt'' ''w''
              (call (RecognizeGoogle ''en'')
                 (call RecordAudio (call (AudioFileEnter ''speech.wav'')
                    (call (Makedirs ''output'') (started quiet_env))))))))"
  unfolding run_quiet main_quiet_stt convert_speech_to_text_def stt_try_quiet_success
  by simp

subsection \<open>What the success paths log\<close>

text \<open>
  Claim C7 does not hold of the code on the two success paths. In a run of \<open>tts\<close> in
  which everything succeeds, the audio is written, the only logging call is
  \<open>logging.info\<close> on the root logger (which drops it, its level being WARNING), so no
  record reaches the logger \<open>TextSpeechLogger\<close>, and the log file stays empty. In a
  run of \<open>stt\<close> in which everything succeeds, the transcript is written and there is no
  logging call and no output at all. (The failure paths do log, see C2 and C3.)
\<close>

theorem C7_success_paths_leave_the_log_empty:
  "fst (run quiet_env [''tts'', ''--text'', ''hello''] Map.empty) = 0 \<and>
   files (snd (run quiet_env [''tts'', ''--text'', ''hello''] Map.empty))
     ''output/speech_output.mp3'' = Some ''audio:en:hello'' \<and>
   files (snd (run quiet_env [''tts'', ''--text'', ''hello''] Map.empty))
     ''logs/converter.log'' = Some [] \<and>
   filter is_logger_record
     (trace (snd (run quiet_env [''tts'', ''--text'', ''hello''] Map.empty))) = [] \<and>
   stderr (snd (run quiet_env [''tts'', ''--text'', ''hello''] Map.empty)) = [] \<and>
   fst (run quiet_env [''stt'', ''--audio'', ''speech.wav''] Map.empty) = 0 \<and>
   files (snd (run quiet_env [''stt'', ''--audio'', ''speech.wav''] Map.empty))
     ''output/text_output.txt'' = Some ''hello world'' \<and>
   files (snd (run quiet_env [''stt'', ''--audio'', ''speech.wav''] Map.empty))
     ''logs/converter.log'' = Some [] \<and>
   filter is_logger_record
     (trace (snd (run quiet_env [''stt'', ''--audio'', ''speech.wav''] Map.empty))) = [] \<and>
   stderr (snd (run quiet_env [''stt'', ''--audio'', ''speech.wav''] Map.empty)) = [] \<and>
   stdout (snd (run quiet_env [''stt'', ''--audio'', ''speech.wav''] Map.empty)) = []"
  unfolding run_quiet_tts run_quiet_stt
  by (simp add: started_quiet open_file_files strip_dot_def)

subsection \<open>Log levels that are no level names\<close>

lemma unknown_level_name_is_INFO:
  assumes "map_of logging_levels name = None" and "name \<notin> set logging_functions"
    and "logging_other_attr env name = None"
  shows "checkLevel (logging_getattr env name (PyInt 20)) = Inr 20"
  by (simp add: checkLevel_def logging_getattr_def assms)

lemma module_init_lowercase_level:
  "module_init lowercase_level_env (initial_state Map.empty) =
     (Inl (Raised TypeError ''Level not an integer or a valid string: <function info at 0x7f4a4a8ae480>''),
      \<lparr>config = one_option ''Logging'' ''log_level'' ''info'', logger_level = 0,
       file_handler = None, console_handler = False, root_handler = False,
       files = Map.empty, stdout = [], stderr = [],
       trace = [ConfigRead ''config.ini'', Makedirs ''logs'']\<rparr>)"
proof -
  have r: "config_read lowercase_level_env ''config.ini'' (initial_state Map.empty) =
             (Inr (), \<lparr>config = one_option ''Logging'' ''log_level'' ''info'',
                logger_level = 0, file_handler = None,
                console_handler = False, root_handler = False, files = Map.empty,
                stdout = [], stderr = [], trace = [ConfigRead ''config.ini'']\<rparr>)"
    by (simp add: config_read_def call_def initial_state_def)
  have f: "config_get env (one_option ''Logging'' ''log_level'' ''info'')
             ''Logging'' ''log_file'' ''logs/converter.log'' = Inr ''logs/converter.log''" for env
    by (simp add: config_get_def one_option_def)
  have g: "config_get env (one_option ''Logging'' ''log_level'' ''info'')
             ''Logging'' ''log_level'' ''INFO'' = Inr ''info''" for env
    by (simp add: config_get_def one_option_def)
  have l: "checkLevel (logging_getattr lowercase_level_env ''info'' (PyInt 20))
             = Inl (Raised TypeError
                 ''Level not an integer or a valid string: <function info at 0x7f4a4a8ae480>'')"
    by (simp add: checkLevel_def logging_getattr_def logging_levels_def logging_functions_def)
  show ?thesis
    by (simp add: module_init_def r f g l dirname_logs makedirs_def call_def)
qed

text \<open>
  Claim C9 does not hold of the code for every string that is no level name. The
  fallback of \<open>getattr\<close> applies only when the \<open>logging\<close> module has no attribute
  of that name (lemma \<open>unknown_level_name_is_INFO\<close>). The string \<open>info\<close> is no level
  name, but it names the function \<open>logging.info\<close>: \<open>setLevel\<close> raises
  \<open>TypeError\<close>, the module is not initialised, and the process exits with status 1
  before anything else happens.
\<close>

theorem C9_lowercase_level_name_crashes:
  "config_get lowercase_level_env (one_option ''Logging'' ''log_level'' ''info'')
     ''Logging'' ''log_level'' ''INFO'' = Inr ''info'' \<and>
   map_of logging_levels ''info'' = None \<and>
   fst (module_init lowercase_level_env (initial_state Map.empty)) =
     Inl (Raised TypeError ''Level not an integer or a valid string: <function info at 0x7f4a4a8ae480>'') \<and>
   fst (run lowercase_level_env [''tts'', ''--text'', ''hello''] Map.empty) = 1 \<and>
   trace (snd (run lowercase_level_env [''tts'', ''--text'', ''hello''] Map.empty)) =
     [ConfigRead ''config.ini'', Makedirs ''logs'']"
proof -
  have g: "config_get lowercase_level_env (one_option ''Logging'' ''log_level'' ''info'')
     ''Logging'' ''log_level'' ''INFO'' = Inr ''info''"
    by (simp add: config_get_def one_option_def)
  have m: "map_of logging_levels ''info'' = None"
    by (simp add: logging_levels_def)
  from g m show ?thesis
    by (simp add: run_def module_init_lowercase_level)
qed

end
